theory Spec2Isabelle
  imports Main "HOL-Library.Sublist"
begin

section \<open>The fake I2C bus of fake\_i2c.py\<close>

text \<open>
  The class \<open>FakeI2cBus\<close> loads the kernel module \<open>i2c-stub\<close> through shell commands,
  finds the bus the stub got in the output of \<open>i2cdetect -l\<close>, and publishes it under
  \<open>/dev/i2c-<bus>\<close> through a symbolic link. The model below follows the Python text:
  the instance is a record of its private fields, the host (what lies under each path, and
  whatever the kernel keeps) is an explicit state, every call that leaves the process is
  written to a list of events, and every exception is a value.

  Strings are lists of \<open>char\<close>, read as code points below 256. Paths are taken to be
  absolute. The limit on the number of digits that recent Python versions put on
  \<open>int(str)\<close> and \<open>str(int)\<close> is not part of the model.
\<close>

subsection \<open>Python's string functions\<close>

definition NL :: char where
  "NL = CHR 0x0A"

definition TAB :: char where
  "TAB = CHR 0x09"

definition QUOTE :: char where
  "QUOTE = CHR 0x27"

text \<open>\<open>str.isspace\<close> on one character, for code points below 256.\<close>

definition isspace :: "char \<Rightarrow> bool" where
  "isspace c = (of_char c \<in> {9, 10, 11, 12, 13, 28, 29, 30, 31, 32, 133, 160 :: nat})"

definition isdigit :: "char \<Rightarrow> bool" where
  "isdigit c = (48 \<le> (of_char c :: nat) \<and> (of_char c :: nat) \<le> 57)"

text \<open>\<open>s.startswith(p)\<close> and \<open>p in s\<close>.\<close>

fun startswith :: "string \<Rightarrow> string \<Rightarrow> bool" where
  "startswith s [] = True"
| "startswith [] (p # ps) = False"
| "startswith (c # cs) (p # ps) = (c = p \<and> startswith cs ps)"

fun py_in :: "string \<Rightarrow> string \<Rightarrow> bool" where
  "py_in p [] = (p = [])"
| "py_in p (c # cs) = (startswith (c # cs) p \<or> py_in p cs)"

text \<open>\<open>s.split(sep)\<close> for a separator of one character: never an empty list.\<close>

fun split_on :: "char \<Rightarrow> string \<Rightarrow> string list" where
  "split_on sep [] = [[]]"
| "split_on sep (c # cs) =
     (if c = sep then [] # split_on sep cs
      else (case split_on sep cs of
              [] \<Rightarrow> [[c]]
            | h # t \<Rightarrow> (c # h) # t))"

text \<open>\<open>s.split()\<close>: the maximal runs of characters that are not whitespace. The first
  argument is the run read so far.\<close>

fun split_ws :: "string \<Rightarrow> string \<Rightarrow> string list" where
  "split_ws cur [] = (if cur = [] then [] else [cur])"
| "split_ws cur (c # cs) =
     (if isspace c then (if cur = [] then split_ws [] cs else cur # split_ws [] cs)
      else split_ws (cur @ [c]) cs)"

definition py_split :: "string \<Rightarrow> string list" where
  "py_split s = split_ws [] s"

text \<open>\<open>s.strip(chars)\<close> removes, at both ends, every character that occurs in
  \<open>chars\<close>: the argument is a set of characters, not a prefix.\<close>

definition py_strip :: "string \<Rightarrow> string \<Rightarrow> string" where
  "py_strip chars s =
     rev (dropWhile (\<lambda>c. c \<in> set chars) (rev (dropWhile (\<lambda>c. c \<in> set chars) s)))"

text \<open>\<open>sep.join(xs)\<close>.\<close>

fun join :: "string \<Rightarrow> string list \<Rightarrow> string" where
  "join sep [] = []"
| "join sep [x] = x"
| "join sep (x # y # ys) = x @ sep @ join sep (y # ys)"

subsection \<open>Numbers and their text\<close>

definition digit_char :: "nat \<Rightarrow> char" where
  "digit_char d = (if d < 10 then char_of (48 + d) else char_of (87 + d))"

text \<open>The digits of a natural number in a base, most significant first.\<close>

function digits :: "nat \<Rightarrow> nat \<Rightarrow> string" where
  "digits b n =
     (if b < 2 \<or> n < b then [digit_char n]
      else digits b (n div b) @ [digit_char (n mod b)])"
  by pat_completeness auto
termination
  by (relation "measure (\<lambda>(b, n). n)") auto

declare digits.simps [simp del]

text \<open>\<open>str(n)\<close> and \<open>hex(n)\<close> for an integer.\<close>

definition py_str :: "int \<Rightarrow> string" where
  "py_str n = (if n < 0 then ''-'' @ digits 10 (nat (- n)) else digits 10 (nat n))"

definition hex :: "int \<Rightarrow> string" where
  "hex n = (if n < 0 then ''-0x'' @ digits 16 (nat (- n)) else ''0x'' @ digits 16 (nat n))"

text \<open>\<open>str(x)\<close> for a field that is an integer or \<open>None\<close>.\<close>

definition py_str_opt :: "int option \<Rightarrow> string" where
  "py_str_opt x = (case x of None \<Rightarrow> ''None'' | Some n \<Rightarrow> py_str n)"

text \<open>The exceptions that the code raises or that reach it.\<close>

datatype error =
    FakeI2cException string
  | ValueError
  | IndexError
  | TypeError
  | FileExistsError
  | FileNotFoundError
  | OSError string

text \<open>\<open>int(s)\<close> for a text: whitespace around it is dropped, one sign is allowed, then
  decimal digits, where single underscores may stand between digits. Anything else raises
  \<open>ValueError\<close>.\<close>

fun digit_groups :: "bool \<Rightarrow> string \<Rightarrow> bool" where
  "digit_groups after_digit [] = after_digit"
| "digit_groups after_digit (c # cs) =
     (if isdigit c then digit_groups True cs
      else if c = CHR ''_'' then after_digit \<and> digit_groups False cs
      else False)"

fun decimal_value :: "nat \<Rightarrow> string \<Rightarrow> nat" where
  "decimal_value acc [] = acc"
| "decimal_value acc (c # cs) =
     (if isdigit c then decimal_value (10 * acc + (of_char c - 48)) cs
      else decimal_value acc cs)"

definition py_int :: "string \<Rightarrow> error + int" where
  "py_int s =
     (let t = rev (dropWhile isspace (rev (dropWhile isspace s)));
          neg = (case t of [] \<Rightarrow> False | c # _ \<Rightarrow> c = CHR ''-'');
          body = (case t of [] \<Rightarrow> []
                  | c # cs \<Rightarrow> if c = CHR ''-'' \<or> c = CHR ''+'' then cs else t)
      in if digit_groups False body
         then Inr (if neg then - int (decimal_value 0 body) else int (decimal_value 0 body))
         else Inl ValueError)"

subsection \<open>The host\<close>

text \<open>
  What the code sees of the machine: what lies under each path (a symbolic link with its
  target, or some other node such as a device node or a file), and the state of the kernel,
  which only the shell commands read and change.
\<close>

datatype entry = Link string | Node

record 'k host =
  entries :: "string \<rightharpoonup> entry"
  kernel :: 'k

text \<open>Every call that leaves the process, in the order of the calls.\<close>

datatype event =
    Cmd string
  | Unlink string
  | Symlink string string
  | SMBusOpen "int option"
  | SMBusClose

record 'k world =
  host :: "'k host"
  events :: "event list"

text \<open>
  The collaborators that are not code of this repository: the shell behind
  \<open>subprocess.run\<close>, which gives exit status, standard output and standard error of a
  command and may change the host, and \<open>open\<close> and \<open>close\<close> of the base class
  \<open>smbus2.SMBus\<close>, which raise or do not.
\<close>

type_synonym cmd_result = "int \<times> string \<times> string"

record 'k env =
  shell :: "string \<Rightarrow> 'k host \<Rightarrow> cmd_result \<times> 'k host"
  smbus_open :: "int option \<Rightarrow> 'k host \<Rightarrow> error option"
  smbus_close :: "'k host \<Rightarrow> error option"

text \<open>\<open>os.path.islink\<close>, \<open>os.readlink\<close>, \<open>os.path.exists\<close> (which follows links,
  at most 40 of them as Linux does, and is false for a link that leads nowhere),
  \<open>os.unlink\<close> and \<open>os.symlink\<close>.\<close>

definition islink :: "'k host \<Rightarrow> string \<Rightarrow> bool" where
  "islink h p = (case entries h p of Some (Link t) \<Rightarrow> True | _ \<Rightarrow> False)"

definition readlink :: "'k host \<Rightarrow> string \<Rightarrow> error + string" where
  "readlink h p =
     (case entries h p of
        None \<Rightarrow> Inl FileNotFoundError
      | Some Node \<Rightarrow> Inl (OSError ''EINVAL'')
      | Some (Link t) \<Rightarrow> Inr t)"

fun follow :: "nat \<Rightarrow> 'k host \<Rightarrow> string \<Rightarrow> bool" where
  "follow 0 h p = (entries h p = Some Node)"
| "follow (Suc n) h p =
     (case entries h p of
        None \<Rightarrow> False
      | Some Node \<Rightarrow> True
      | Some (Link t) \<Rightarrow> follow n h t)"

definition path_exists :: "'k host \<Rightarrow> string \<Rightarrow> bool" where
  "path_exists h p = follow 40 h p"

definition os_unlink :: "'k host \<Rightarrow> string \<Rightarrow> error + 'k host" where
  "os_unlink h p =
     (if entries h p = None then Inl FileNotFoundError
      else Inr (h\<lparr>entries := (entries h)(p := None)\<rparr>))"

definition os_symlink :: "'k host \<Rightarrow> string \<Rightarrow> string \<Rightarrow> error + 'k host" where
  "os_symlink h target p =
     (if entries h p \<noteq> None then Inl FileExistsError
      else Inr (h\<lparr>entries := (entries h)(p \<mapsto> Link target)\<rparr>))"

text \<open>\<open>repr(e)\<close> of an exception.\<close>

fun py_repr :: "error \<Rightarrow> string" where
  "py_repr (FakeI2cException m) = ''FakeI2cException('' @ [QUOTE] @ m @ [QUOTE] @ '')''"
| "py_repr ValueError = ''ValueError()''"
| "py_repr IndexError = ''IndexError()''"
| "py_repr TypeError = ''TypeError()''"
| "py_repr FileExistsError =
     ''FileExistsError(17, '' @ [QUOTE] @ ''File exists'' @ [QUOTE] @ '')''"
| "py_repr FileNotFoundError =
     ''FileNotFoundError(2, '' @ [QUOTE] @ ''No such file or directory'' @ [QUOTE] @ '')''"
| "py_repr (OSError m) = ''OSError('' @ [QUOTE] @ m @ [QUOTE] @ '')''"

subsection \<open>The instance\<close>

text \<open>The private fields of \<open>FakeI2cBus\<close>; a field that holds Python's \<open>None\<close> is
  \<open>None\<close> here.\<close>

record fake_i2c_bus =
  bus :: "int option"
  real_bus :: "int option"
  bus_link :: "string option"
  real_bus_path :: "string option"
  devices_list :: "int list option"

text \<open>The fields after \<open>__init__\<close> without a bus: nothing is opened.\<close>

definition init :: fake_i2c_bus where
  "init = \<lparr>bus = None, real_bus = None, bus_link = None, real_bus_path = None,
           devices_list = None\<rparr>"

definition get_bus :: "fake_i2c_bus \<Rightarrow> int option" where
  "get_bus self = bus self"

definition bus_path :: "fake_i2c_bus \<Rightarrow> string" where
  "bus_path self =
     (case bus_link self of None \<Rightarrow> [] | Some p \<Rightarrow> if p \<noteq> [] then p else [])"

definition get_real_bus :: "fake_i2c_bus \<Rightarrow> int option" where
  "get_real_bus self = real_bus self"

definition get_real_bus_path :: "fake_i2c_bus \<Rightarrow> string" where
  "get_real_bus_path self =
     (case real_bus_path self of None \<Rightarrow> [] | Some p \<Rightarrow> if p \<noteq> [] then p else [])"

subsection \<open>Running commands\<close>

text \<open>\<open>__run_cmd\<close>: the command goes to the shell; its exit status is not looked at.\<close>

definition run_cmd :: "'k env \<Rightarrow> string \<Rightarrow> 'k world \<Rightarrow> cmd_result \<times> 'k world" where
  "run_cmd E cmd w =
     (let (r, h) = shell E cmd (host w)
      in (r, w\<lparr>host := h, events := events w @ [Cmd cmd]\<rparr>))"

definition cmd_failure :: "string \<Rightarrow> int \<Rightarrow> string \<Rightarrow> string" where
  "cmd_failure cmd rc err =
     ''Cannot run command '' @ [QUOTE] @ cmd @ [QUOTE] @ ''. Shell returns: ['' @ py_str rc
       @ ''] - '' @ err"

text \<open>\<open>__run_cmd_raise_exception\<close>: an exit status other than 0 raises; otherwise the
  status and the standard output are returned.\<close>

definition run_cmd_raise_exception ::
  "'k env \<Rightarrow> string \<Rightarrow> 'k world \<Rightarrow> (error + int \<times> string) \<times> 'k world" where
  "run_cmd_raise_exception E cmd w =
     (case run_cmd E cmd w of
        ((rc, out, err), w') \<Rightarrow>
          if rc \<noteq> 0 then (Inl (FakeI2cException (cmd_failure cmd rc err)), w')
          else (Inr (rc, out), w'))"

subsection \<open>Finding the stub and linking it\<close>

definition marker :: string where
  "marker = ''SMBus stub driver''"

text \<open>
  The loop of \<open>__symlink_i2c_stub\<close> over the lines of the output. It stops at the first
  line that contains the marker; there it takes the first token, strips it and reads the
  number. The result is the exception raised (if any), the value of the local
  \<open>i2c_bus\<close>, and the instance.
\<close>

fun scan_lines ::
  "string list \<Rightarrow> fake_i2c_bus \<Rightarrow> error option \<times> string option \<times> fake_i2c_bus" where
  "scan_lines [] self = (None, None, self)"
| "scan_lines (line # rest) self =
     (if py_in marker line then
        (case py_split line of
           [] \<Rightarrow> (Some IndexError, None, self)
         | i2c_bus # _ \<Rightarrow>
             (case py_int (py_strip ''i2c-'' i2c_bus) of
                Inl e \<Rightarrow> (Some e, Some i2c_bus, self)
              | Inr n \<Rightarrow> (None, Some i2c_bus, self\<lparr>real_bus := Some n\<rparr>)))
      else scan_lines rest self)"

text \<open>
  The body of the \<open>try\<close> of \<open>__symlink_i2c_stub\<close>: a link at the alias path whose target
  does not exist is removed; the path of the real bus is stored; the link is made unless
  there is one. The result is the exception raised inside the \<open>try\<close> (if any).
\<close>

definition link_alias ::
  "string \<Rightarrow> string \<Rightarrow> fake_i2c_bus \<Rightarrow> 'k world \<Rightarrow> error option \<times> fake_i2c_bus \<times> 'k world" where
  "link_alias bl i2c_bus self w =
     (let dangling =
            (if islink (host w) bl
             then (case readlink (host w) bl of
                     Inl e \<Rightarrow> Inl e
                   | Inr t \<Rightarrow> Inr (\<not> path_exists (host w) t))
             else Inr False)
      in case dangling of
           Inl e \<Rightarrow> (Some e, self, w)
         | Inr d \<Rightarrow>
            (let r1 = (if d
                       then (let w1 = w\<lparr>events := events w @ [Unlink bl]\<rparr>
                             in case os_unlink (host w1) bl of
                                  Inl e \<Rightarrow> Inl (e, w1)
                                | Inr h \<Rightarrow> Inr (w1\<lparr>host := h\<rparr>))
                       else Inr w)
             in case r1 of
                  Inl (e, w1) \<Rightarrow> (Some e, self, w1)
                | Inr w1 \<Rightarrow>
                   (let rbp = ''/dev/'' @ i2c_bus;
                        self1 = self\<lparr>real_bus_path := Some rbp\<rparr>
                    in if \<not> islink (host w1) bl
                       then (let w2 = w1\<lparr>events := events w1 @ [Symlink rbp bl]\<rparr>
                             in case os_symlink (host w2) rbp bl of
                                  Inl e \<Rightarrow> (Some e, self1, w2)
                                | Inr h \<Rightarrow> (None, self1, w2\<lparr>host := h\<rparr>))
                       else (None, self1, w1))))"

text \<open>\<open>__symlink_i2c_stub\<close>.\<close>

definition symlink_i2c_stub ::
  "'k env \<Rightarrow> fake_i2c_bus \<Rightarrow> 'k world \<Rightarrow> error option \<times> fake_i2c_bus \<times> 'k world" where
  "symlink_i2c_stub E self w =
     (case run_cmd_raise_exception E ''i2cdetect -l'' w of
        (Inl e, w1) \<Rightarrow> (Some e, self, w1)
      | (Inr output, w1) \<Rightarrow>
          (case scan_lines (split_on NL (snd output)) self of
             (Some e, _, self1) \<Rightarrow> (Some e, self1, w1)
           | (None, None, self1) \<Rightarrow>
               (Some (FakeI2cException ''SMBus stub driver not found''), self1, w1)
           | (None, Some i2c_bus, self1) \<Rightarrow>
               (let bl = ''/dev/i2c-'' @ py_str_opt (bus self1);
                    self2 = self1\<lparr>bus_link := Some bl\<rparr>
                in case link_alias bl i2c_bus self2 w1 of
                     (Some e, self3, w2) \<Rightarrow>
                       (Some (FakeI2cException
                                (''Cannot create fake i2c symlink: '' @ py_repr e)), self3, w2)
                   | (None, self3, w2) \<Rightarrow> (None, self3, w2))))"

subsection \<open>Loading and unloading the stub\<close>

text \<open>The command that loads the stub: lines 92 and 93 of the source.\<close>

definition chip_addr_param :: "int list \<Rightarrow> string" where
  "chip_addr_param ds = ''chip_addr='' @ join '','' (map hex ds)"

definition stub_load_cmd :: "int list \<Rightarrow> string" where
  "stub_load_cmd ds = ''modprobe i2c-stub '' @ chip_addr_param ds"

text \<open>\<open>__add_fake_devices\<close>.\<close>

definition add_fake_devices ::
  "'k env \<Rightarrow> int list \<Rightarrow> fake_i2c_bus \<Rightarrow> 'k world
     \<Rightarrow> error option \<times> fake_i2c_bus \<times> 'k world" where
  "add_fake_devices E ds self w =
     (case run_cmd_raise_exception E ''modprobe i2c-dev'' w of
        (Inl e, w1) \<Rightarrow> (Some e, self, w1)
      | (Inr _, w1) \<Rightarrow>
          (case run_cmd_raise_exception E ''modprobe -r i2c-stub'' w1 of
             (Inl e, w2) \<Rightarrow> (Some e, self, w2)
           | (Inr _, w2) \<Rightarrow>
               (case run_cmd_raise_exception E (stub_load_cmd ds) w2 of
                  (Inl e, w3) \<Rightarrow> (Some e, self, w3)
                | (Inr _, w3) \<Rightarrow> symlink_i2c_stub E self w3)))"


subsection \<open>Opening and closing\<close>

text \<open>\<open>open\<close>: the fields are stored, the stub is loaded and linked, and then the base
  class opens the real bus.\<close>

definition open_bus ::
  "'k env \<Rightarrow> int \<Rightarrow> int list \<Rightarrow> fake_i2c_bus \<Rightarrow> 'k world
     \<Rightarrow> error option \<times> fake_i2c_bus \<times> 'k world" where
  "open_bus E b ds self w =
     (let self1 = self\<lparr>bus := Some b, devices_list := Some ds\<rparr>
      in case add_fake_devices E ds self1 w of
           (Some e, self2, w1) \<Rightarrow> (Some e, self2, w1)
         | (None, self2, w1) \<Rightarrow>
             (let w2 = w1\<lparr>events := events w1 @ [SMBusOpen (real_bus self2)]\<rparr>
              in (smbus_open E (real_bus self2) (host w2), self2, w2)))"


subsection \<open>Reading a rendering back\<close>

text \<open>
  What the specification calls lowercase hexadecimal, written independently of \<open>hex\<close>:
  the value of a text made of the characters \<open>0\<close> to \<open>9\<close> and \<open>a\<close> to \<open>f\<close> only,
  read in base 16. A text with any other character, or with none, has no value.
\<close>

definition hexdigit_value :: "char \<Rightarrow> nat option" where
  "hexdigit_value c =
     (let k = (of_char c :: nat)
      in if 48 \<le> k \<and> k \<le> 57 then Some (k - 48)
         else if 97 \<le> k \<and> k \<le> 102 then Some (k - 87)
         else None)"

fun lower_hex_acc :: "nat \<Rightarrow> string \<Rightarrow> nat option" where
  "lower_hex_acc acc [] = Some acc"
| "lower_hex_acc acc (c # cs) =
     (case hexdigit_value c of
        None \<Rightarrow> None
      | Some d \<Rightarrow> lower_hex_acc (16 * acc + d) cs)"

definition lower_hex_value :: "string \<Rightarrow> nat option" where
  "lower_hex_value s = (if s = [] then None else lower_hex_acc 0 s)"

subsection \<open>A host to run the code on\<close>

text \<open>
  A shell that answers each command by a fixed table and leaves the host alone, a base
  class whose \<open>open\<close> and \<open>close\<close> do not raise, and a listing in the format of
  \<open>i2cdetect -l\<close>: one bus per line, the fields separated by tabs. In \<open>fails_at\<close>
  one command exits with status 1.
\<close>

definition table_env :: "(string \<Rightarrow> cmd_result) \<Rightarrow> unit env" where
  "table_env f =
     \<lparr>shell = (\<lambda>cmd h. (f cmd, h)), smbus_open = (\<lambda>n h. None), smbus_close = (\<lambda>h. None)\<rparr>"

definition bus_line :: "string \<Rightarrow> string \<Rightarrow> string" where
  "bus_line name descr =
     name @ [TAB] @ ''smbus'' @ [TAB] @ descr @ [TAB] @ ''SMBus adapter'' @ [NL]"

definition listing :: "string \<Rightarrow> string" where
  "listing name =
     bus_line ''i2c-0'' ''SMBus I801 adapter at f040'' @ bus_line name ''SMBus stub driver''"

definition all_ok :: "string \<Rightarrow> string \<Rightarrow> cmd_result" where
  "all_ok out cmd = (if cmd = ''i2cdetect -l'' then (0, out, []) else (0, [], []))"

definition fails_at :: "string \<Rightarrow> string \<Rightarrow> cmd_result" where
  "fails_at bad cmd =
     (if cmd = bad then (1, [], ''FATAL'') else all_ok (listing ''i2c-7'') cmd)"

definition world_of :: "(string \<times> entry) list \<Rightarrow> unit world" where
  "world_of es = \<lparr>host = \<lparr>entries = map_of es, kernel = ()\<rparr>, events = []\<rparr>"


section \<open>Properties\<close>

subsection \<open>Auxiliary facts\<close>

lemma run_cmd_raise_ok:
  "shell E cmd (host w) = ((0, out, err), h) \<Longrightarrow>
   run_cmd_raise_exception E cmd w =
     (Inr (0, out), \<lparr>host = h, events = events w @ [Cmd cmd]\<rparr>)"
  by (simp add: run_cmd_raise_exception_def run_cmd_def)

lemma run_cmd_raise_fail:
  "shell E cmd (host w) = ((rc, out, err), h) \<Longrightarrow> rc \<noteq> 0 \<Longrightarrow>
   run_cmd_raise_exception E cmd w =
     (Inl (FakeI2cException (cmd_failure cmd rc err)),
      \<lparr>host = h, events = events w @ [Cmd cmd]\<rparr>)"
  by (simp add: run_cmd_raise_exception_def run_cmd_def)

lemma scan_lines_no_marker:
  "\<forall>line \<in> set ls. \<not> py_in marker line \<Longrightarrow> scan_lines ls self = (None, None, self)"
  by (induction ls) auto

lemma scan_lines_first_match:
  "find (py_in marker) ls = Some line \<Longrightarrow> scan_lines ls self = scan_lines [line] self"
  by (induction ls) (auto split: if_splits)

lemma link_alias_events:
  "\<exists>evs. events (snd (snd (link_alias bl tok self w))) = events w @ evs"
  by (auto simp: link_alias_def Let_def split: sum.splits if_splits prod.splits)

lemma symlink_i2c_stub_events:
  "\<exists>evs. events (snd (snd (symlink_i2c_stub E self w))) = events w @ Cmd ''i2cdetect -l'' # evs"
proof -
  obtain rc out err h where sh: "shell E ''i2cdetect -l'' (host w) = ((rc, out, err), h)"
    by (metis prod_cases3 surj_pair)
  show ?thesis
  proof (cases "rc = 0")
    case False
    with sh show ?thesis
      by (simp add: symlink_i2c_stub_def run_cmd_raise_fail)
  next
    case True
    let ?w1 = "\<lparr>host = h, events = events w @ [Cmd ''i2cdetect -l'']\<rparr>"
    from True sh have r: "run_cmd_raise_exception E ''i2cdetect -l'' w = (Inr (0, out), ?w1)"
      by (simp add: run_cmd_raise_ok)
    obtain e t s where sc: "scan_lines (split_on NL out) self = (e, t, s)"
      by (metis prod_cases3)
    show ?thesis
    proof (cases e)
      case (Some a)
      with r sc show ?thesis by (simp add: symlink_i2c_stub_def)
    next
      case None
      show ?thesis
      proof (cases t)
        case None
        with \<open>e = None\<close> r sc show ?thesis by (simp add: symlink_i2c_stub_def)
      next
        case (Some tok)
        let ?bl = "''/dev/i2c-'' @ py_str_opt (bus s)"
        obtain evs where
          "events (snd (snd (link_alias ?bl tok (s\<lparr>bus_link := Some ?bl\<rparr>) ?w1))) = events ?w1 @ evs"
          using link_alias_events by blast
        with Some \<open>e = None\<close> r sc show ?thesis
          by (auto simp: symlink_i2c_stub_def Let_def split: prod.splits option.splits)
      qed
    qed
  qed
qed


lemma link_alias_dangling:
  "entries (host w) bl = Some (Link t) \<Longrightarrow> \<not> path_exists (host w) t \<Longrightarrow>
   link_alias bl tok self w =
     (None, self\<lparr>real_bus_path := Some (''/dev/'' @ tok)\<rparr>,
      \<lparr>host = (host w)\<lparr>entries := (entries (host w))(bl \<mapsto> Link (''/dev/'' @ tok))\<rparr>,
       events = events w @ [Unlink bl, Symlink (''/dev/'' @ tok) bl]\<rparr>)"
  by (simp add: link_alias_def islink_def readlink_def os_unlink_def os_symlink_def Let_def)


lemma link_alias_absent:
  "entries (host w) bl = None \<Longrightarrow>
   link_alias bl tok self w =
     (None, self\<lparr>real_bus_path := Some (''/dev/'' @ tok)\<rparr>,
      \<lparr>host = (host w)\<lparr>entries := (entries (host w))(bl \<mapsto> Link (''/dev/'' @ tok))\<rparr>,
       events = events w @ [Symlink (''/dev/'' @ tok) bl]\<rparr>)"
  by (simp add: link_alias_def islink_def os_symlink_def Let_def)


lemma scan_lines_found:
  "scan_lines ls self = (None, Some tok, s) \<Longrightarrow>
   \<exists>line rest n. find (py_in marker) ls = Some line \<and> py_split line = tok # rest
      \<and> py_int (py_strip ''i2c-'' tok) = Inr n \<and> s = self\<lparr>real_bus := Some n\<rparr>"
  by (induction ls) (auto split: if_splits list.splits sum.splits)

lemma symlink_i2c_stub_found:
  "shell E ''i2cdetect -l'' (host w) = ((0, out, err), h) \<Longrightarrow>
   scan_lines (split_on NL out) self = (None, Some tok, s) \<Longrightarrow>
   symlink_i2c_stub E self w =
     (case link_alias (''/dev/i2c-'' @ py_str_opt (bus s)) tok
             (s\<lparr>bus_link := Some (''/dev/i2c-'' @ py_str_opt (bus s))\<rparr>)
             \<lparr>host = h, events = events w @ [Cmd ''i2cdetect -l'']\<rparr> of
        (Some e, s3, w2) \<Rightarrow>
          (Some (FakeI2cException (''Cannot create fake i2c symlink: '' @ py_repr e)), s3, w2)
      | (None, s3, w2) \<Rightarrow> (None, s3, w2))"
  by (simp add: symlink_i2c_stub_def run_cmd_raise_ok Let_def)

lemma symlink_i2c_stub_not_found:
  "shell E ''i2cdetect -l'' (host w) = ((0, out, err), h) \<Longrightarrow>
   \<forall>line \<in> set (split_on NL out). \<not> py_in marker line \<Longrightarrow>
   symlink_i2c_stub E self w =
     (Some (FakeI2cException ''SMBus stub driver not found''), self,
      \<lparr>host = h, events = events w @ [Cmd ''i2cdetect -l'']\<rparr>)"
  by (simp add: symlink_i2c_stub_def run_cmd_raise_ok scan_lines_no_marker)



lemma add_fake_devices_fails_2:
  "shell E ''modprobe i2c-dev'' (host w) = ((0, o1, e1), h1) \<Longrightarrow>
   shell E ''modprobe -r i2c-stub'' h1 = ((rc, out, err), h2) \<Longrightarrow> rc \<noteq> 0 \<Longrightarrow>
   add_fake_devices E ds self w =
     (Some (FakeI2cException (cmd_failure ''modprobe -r i2c-stub'' rc err)), self,
      \<lparr>host = h2, events = events w @ [Cmd ''modprobe i2c-dev'', Cmd ''modprobe -r i2c-stub'']\<rparr>)"
  by (simp add: add_fake_devices_def run_cmd_raise_fail run_cmd_raise_ok)

lemma add_fake_devices_fails_3:
  "shell E ''modprobe i2c-dev'' (host w) = ((0, o1, e1), h1) \<Longrightarrow>
   shell E ''modprobe -r i2c-stub'' h1 = ((0, o2, e2), h2) \<Longrightarrow>
   shell E (stub_load_cmd ds) h2 = ((rc, out, err), h3) \<Longrightarrow> rc \<noteq> 0 \<Longrightarrow>
   add_fake_devices E ds self w =
     (Some (FakeI2cException (cmd_failure (stub_load_cmd ds) rc err)), self,
      \<lparr>host = h3, events = events w @ [Cmd ''modprobe i2c-dev'', Cmd ''modprobe -r i2c-stub'',
         Cmd (stub_load_cmd ds)]\<rparr>)"
  by (simp add: add_fake_devices_def run_cmd_raise_fail run_cmd_raise_ok)

lemma add_fake_devices_loaded:
  "shell E ''modprobe i2c-dev'' (host w) = ((0, o1, e1), h1) \<Longrightarrow>
   shell E ''modprobe -r i2c-stub'' h1 = ((0, o2, e2), h2) \<Longrightarrow>
   shell E (stub_load_cmd ds) h2 = ((0, o3, e3), h3) \<Longrightarrow>
   add_fake_devices E ds self w =
     symlink_i2c_stub E self
       \<lparr>host = h3, events = events w @ [Cmd ''modprobe i2c-dev'', Cmd ''modprobe -r i2c-stub'',
          Cmd (stub_load_cmd ds)]\<rparr>"
  by (simp add: add_fake_devices_def run_cmd_raise_ok)

lemma add_fake_devices_issues_load:
  assumes "shell E ''modprobe i2c-dev'' (host w) = ((0, o1, e1), h1)"
      and "shell E ''modprobe -r i2c-stub'' h1 = ((0, o2, e2), h2)"
  shows "\<exists>evs. events (snd (snd (add_fake_devices E ds self w))) =
           events w @ [Cmd ''modprobe i2c-dev'', Cmd ''modprobe -r i2c-stub'',
             Cmd (stub_load_cmd ds)] @ evs"
proof -
  obtain rc out err h3 where sh: "shell E (stub_load_cmd ds) h2 = ((rc, out, err), h3)"
    by (metis prod_cases3 surj_pair)
  show ?thesis
  proof (cases "rc = 0")
    case False
    with assms sh show ?thesis by (simp add: add_fake_devices_fails_3)
  next
    case True
    let ?w3 = "\<lparr>host = h3, events = events w @ [Cmd ''modprobe i2c-dev'',
                 Cmd ''modprobe -r i2c-stub'', Cmd (stub_load_cmd ds)]\<rparr>"
    obtain evs where "events (snd (snd (symlink_i2c_stub E self ?w3))) =
        events ?w3 @ Cmd ''i2cdetect -l'' # evs"
      using symlink_i2c_stub_events by blast
    with True assms sh show ?thesis by (simp add: add_fake_devices_loaded)
  qed
qed

lemma open_bus_events:
  "\<exists>evs. events (snd (snd (open_bus E b ds self w))) =
     events (snd (snd (add_fake_devices E ds (self\<lparr>bus := Some b, devices_list := Some ds\<rparr>) w)))
       @ evs"
  by (auto simp: open_bus_def Let_def split: prod.splits option.splits)

lemma open_bus_error:
  "add_fake_devices E ds (self\<lparr>bus := Some b, devices_list := Some ds\<rparr>) w = (Some e, s, w1) \<Longrightarrow>
   open_bus E b ds self w = (Some e, s, w1)"
  by (simp add: open_bus_def)

lemma open_bus_loaded:
  "add_fake_devices E ds (self\<lparr>bus := Some b, devices_list := Some ds\<rparr>) w = (None, s, w1) \<Longrightarrow>
   open_bus E b ds self w =
     (smbus_open E (real_bus s) (host w1), s,
      \<lparr>host = host w1, events = events w1 @ [SMBusOpen (real_bus s)]\<rparr>)"
  by (simp add: open_bus_def)



lemma scan_listing_7:
  "scan_lines (split_on NL (listing ''i2c-7'')) self = (None, Some ''i2c-7'', self\<lparr>real_bus := Some 7\<rparr>)"
  by (simp add: listing_def bus_line_def NL_def TAB_def marker_def py_split_def isspace_def
      py_strip_def py_int_def isdigit_def)

lemma scan_listing_12:
  "scan_lines (split_on NL (listing ''i2c-12'')) self = (None, Some ''i2c-12'', self\<lparr>real_bus := Some 1\<rparr>)"
  by (simp add: listing_def bus_line_def NL_def TAB_def marker_def py_split_def isspace_def
      py_strip_def py_int_def isdigit_def)

lemma scan_listing_2:
  "scan_lines (split_on NL (listing ''i2c-2'')) self = (Some ValueError, Some ''i2c-2'', self)"
  by (simp add: listing_def bus_line_def NL_def TAB_def marker_def py_split_def isspace_def
      py_strip_def py_int_def isdigit_def)


lemma table_env_shell: "shell (table_env f) cmd h = (f cmd, h)"
  by (simp add: table_env_def)

lemma all_ok_modprobe:
  "all_ok out ''modprobe i2c-dev'' = (0, [], [])"
  "all_ok out ''modprobe -r i2c-stub'' = (0, [], [])"
  "all_ok out (stub_load_cmd ds) = (0, [], [])"
  "all_ok out ''i2cdetect -l'' = (0, out, [])"
  by (simp_all add: all_ok_def stub_load_cmd_def)

lemma symlink_i2c_stub_scan_error:
  "shell E ''i2cdetect -l'' (host w) = ((0, out, err), h) \<Longrightarrow>
   scan_lines (split_on NL out) self = (Some e, t, s) \<Longrightarrow>
   symlink_i2c_stub E self w = (Some e, s, \<lparr>host = h, events = events w @ [Cmd ''i2cdetect -l'']\<rparr>)"
  by (simp add: symlink_i2c_stub_def run_cmd_raise_ok)


lemma open_bus_reaches_alias:
  assumes c1: "shell E ''modprobe i2c-dev'' (host w) = ((0, o1, e1), h1)"
      and c2: "shell E ''modprobe -r i2c-stub'' h1 = ((0, o2, e2), h2)"
      and c3: "shell E (stub_load_cmd ds) h2 = ((0, o3, e3), h3)"
      and c4: "shell E ''i2cdetect -l'' h3 = ((0, out, e4), h4)"
      and sc: "scan_lines (split_on NL out) (self\<lparr>bus := Some b, devices_list := Some ds\<rparr>)
                 = (None, Some tok, s)"
  shows "open_bus E b ds self w =
     (case link_alias (''/dev/i2c-'' @ py_str b) tok (s\<lparr>bus_link := Some (''/dev/i2c-'' @ py_str b)\<rparr>)
             \<lparr>host = h4, events = events w @ [Cmd ''modprobe i2c-dev'',
                Cmd ''modprobe -r i2c-stub'', Cmd (stub_load_cmd ds), Cmd ''i2cdetect -l'']\<rparr> of
        (Some e, s3, w2) \<Rightarrow>
          (Some (FakeI2cException (''Cannot create fake i2c symlink: '' @ py_repr e)), s3, w2)
      | (None, s3, w2) \<Rightarrow>
          (smbus_open E (real_bus s3) (host w2), s3,
           \<lparr>host = host w2, events = events w2 @ [SMBusOpen (real_bus s3)]\<rparr>))"
proof -
  let ?S = "self\<lparr>bus := Some b, devices_list := Some ds\<rparr>"
  let ?w3 = "\<lparr>host = h3, events = events w @ [Cmd ''modprobe i2c-dev'',
                Cmd ''modprobe -r i2c-stub'', Cmd (stub_load_cmd ds)]\<rparr>"
  from scan_lines_found [OF sc] have b: "bus s = Some b" by auto
  have a: "add_fake_devices E ds ?S w = symlink_i2c_stub E ?S ?w3"
    using c1 c2 c3 by (rule add_fake_devices_loaded)
  have c4': "shell E ''i2cdetect -l'' (host ?w3) = ((0, out, e4), h4)"
    using c4 by simp
  show ?thesis
    unfolding open_bus_def Let_def a symlink_i2c_stub_found [OF c4' sc]
    by (simp add: b py_str_opt_def split: prod.splits option.splits)
qed


lemma open_bus_scan_error:
  assumes "shell E ''modprobe i2c-dev'' (host w) = ((0, o1, e1), h1)"
      and "shell E ''modprobe -r i2c-stub'' h1 = ((0, o2, e2), h2)"
      and "shell E (stub_load_cmd ds) h2 = ((0, o3, e3), h3)"
      and "shell E ''i2cdetect -l'' h3 = ((0, out, e4), h4)"
      and "scan_lines (split_on NL out) (self\<lparr>bus := Some b, devices_list := Some ds\<rparr>)
                 = (Some e, t, s)"
  shows "open_bus E b ds self w =
     (Some e, s, \<lparr>host = h4, events = events w @ [Cmd ''modprobe i2c-dev'',
                Cmd ''modprobe -r i2c-stub'', Cmd (stub_load_cmd ds), Cmd ''i2cdetect -l'']\<rparr>)"
  using assms
  by (simp add: open_bus_error add_fake_devices_loaded symlink_i2c_stub_scan_error)


lemma path_exists_absent: "entries h p = None \<Longrightarrow> \<not> path_exists h p"
  by (simp add: path_exists_def eval_nat_numeral)


lemma table_env_smbus:
  "smbus_open (table_env f) n h = None"
  "smbus_close (table_env f) h = None"
  by (simp_all add: table_env_def)




lemma open_bus_alias_dangling:
  assumes "shell E ''modprobe i2c-dev'' (host w) = ((0, o1, e1), h1)"
      and "shell E ''modprobe -r i2c-stub'' h1 = ((0, o2, e2), h2)"
      and "shell E (stub_load_cmd ds) h2 = ((0, o3, e3), h3)"
      and "shell E ''i2cdetect -l'' h3 = ((0, out, e4), h4)"
      and "scan_lines (split_on NL out) (self\<lparr>bus := Some b, devices_list := Some ds\<rparr>)
                 = (None, Some tok, s)"
      and "entries h4 (''/dev/i2c-'' @ py_str b) = Some (Link t)"
      and "\<not> path_exists h4 t"
  shows "open_bus E b ds self w =
     (smbus_open E (real_bus s)
        (h4\<lparr>entries := (entries h4)(''/dev/i2c-'' @ py_str b \<mapsto> Link (''/dev/'' @ tok))\<rparr>),
      s\<lparr>bus_link := Some (''/dev/i2c-'' @ py_str b), real_bus_path := Some (''/dev/'' @ tok)\<rparr>,
      \<lparr>host = h4\<lparr>entries := (entries h4)(''/dev/i2c-'' @ py_str b \<mapsto> Link (''/dev/'' @ tok))\<rparr>,
       events = events w @ [Cmd ''modprobe i2c-dev'', Cmd ''modprobe -r i2c-stub'',
          Cmd (stub_load_cmd ds), Cmd ''i2cdetect -l'',
          Unlink (''/dev/i2c-'' @ py_str b),
          Symlink (''/dev/'' @ tok) (''/dev/i2c-'' @ py_str b),
          SMBusOpen (real_bus s)]\<rparr>)"
  unfolding open_bus_reaches_alias [OF assms(1-5)]
  using assms(6,7) by (simp add: link_alias_dangling)


lemma fixture_commands:
  "shell (table_env (all_ok out)) ''modprobe i2c-dev'' h = ((0, [], []), h)"
  "shell (table_env (all_ok out)) ''modprobe -r i2c-stub'' h = ((0, [], []), h)"
  "shell (table_env (all_ok out)) (stub_load_cmd ds) h = ((0, [], []), h)"
  "shell (table_env (all_ok out)) ''i2cdetect -l'' h = ((0, out, []), h)"
  by (simp_all add: table_env_shell all_ok_modprobe)

lemma py_str_3: "py_str 3 = ''3''"
  by code_simp



lemma hexdigit_value_digit_char: "d < 16 \<Longrightarrow> hexdigit_value (digit_char d) = Some d"
  by (simp add: hexdigit_value_def digit_char_def Let_def)

lemma lower_hex_acc_snoc:
  "lower_hex_acc acc (xs @ [c]) =
     (case lower_hex_acc acc xs of
        None \<Rightarrow> None
      | Some v \<Rightarrow> (case hexdigit_value c of None \<Rightarrow> None | Some d \<Rightarrow> Some (16 * v + d)))"
  by (induction xs arbitrary: acc) (auto split: option.splits)

lemma lower_hex_acc_digits: "lower_hex_acc 0 (digits 16 n) = Some n"
proof (induction "16 :: nat" n rule: digits.induct)
  case (1 n)
  show ?case
  proof (cases "n < 16")
    case True
    then show ?thesis
      by (subst digits.simps) (simp add: hexdigit_value_digit_char)
  next
    case False
    with 1 have "lower_hex_acc 0 (digits 16 (n div 16)) = Some (n div 16)"
      by simp
    with False show ?thesis
      by (subst digits.simps) (simp add: lower_hex_acc_snoc hexdigit_value_digit_char)
  qed
qed

lemma digits_not_empty: "digits b n \<noteq> []"
  by (subst digits.simps) simp

lemma lower_hex_value_digits: "lower_hex_value (digits 16 n) = Some n"
  by (simp add: lower_hex_value_def digits_not_empty lower_hex_acc_digits)

lemma lower_hex_acc_chars:
  "lower_hex_acc acc s = Some v \<Longrightarrow> c \<in> set s \<Longrightarrow> hexdigit_value c \<noteq> None"
  by (induction s arbitrary: acc) (auto split: option.splits)

lemma digits_16_chars: "c \<in> set (digits 16 n) \<Longrightarrow> hexdigit_value c \<noteq> None"
  using lower_hex_acc_chars [OF lower_hex_acc_digits] .

lemma hex_chars:
  assumes "c \<in> set (hex a)"
  shows "c = CHR ''-'' \<or> c = CHR ''x'' \<or> hexdigit_value c \<noteq> None"
proof -
  have "hexdigit_value CHR ''0'' \<noteq> None"
    by (simp add: hexdigit_value_def)
  with assms show ?thesis
    by (auto simp: hex_def dest: digits_16_chars split: if_splits)
qed

lemma hex_no_comma: "CHR '','' \<notin> set (hex a)"
  using hex_chars [of "CHR '',''" a] by (auto simp: hexdigit_value_def)

lemma hex_no_space: "CHR '' '' \<notin> set (hex a)"
  using hex_chars [of "CHR '' ''" a] by (auto simp: hexdigit_value_def)

lemma split_on_no_sep: "sep \<notin> set x \<Longrightarrow> split_on sep x = [x]"
  by (induction x) auto

lemma split_on_append_sep:
  "sep \<notin> set x \<Longrightarrow> split_on sep (x @ sep # rest) = x # split_on sep rest"
  by (induction x) auto

lemma split_on_join:
  "xs \<noteq> [] \<Longrightarrow> \<forall>x \<in> set xs. sep \<notin> set x \<Longrightarrow> split_on sep (join [sep] xs) = xs"
  by (induction "[sep]" xs rule: join.induct) (auto simp: split_on_no_sep split_on_append_sep)

lemma set_join: "set (join sep xs) \<subseteq> set sep \<union> (\<Union>x \<in> set xs. set x)"
  by (induction sep xs rule: join.induct) auto

lemma chip_addr_param_no_space: "CHR '' '' \<notin> set (chip_addr_param ds)"
proof
  assume "CHR '' '' \<in> set (chip_addr_param ds)"
  then have "CHR '' '' \<in> set (join '','' (map hex ds))"
    by (simp add: chip_addr_param_def)
  with set_join [of "'',''" "map hex ds"] have "\<exists>a \<in> set ds. CHR '' '' \<in> set (hex a)"
    by auto
  then show False
    by (simp add: hex_no_space)
qed


text \<open>The bus number comes back from \<open>int(i2c_bus.strip('i2c-'))\<close> whenever its decimal
  text neither starts nor ends with the digit 2.\<close>

lemma isdigit_digit_char: "d < 10 \<Longrightarrow> isdigit (digit_char d)"
  by (simp add: isdigit_def digit_char_def)

lemma of_char_digit_char: "d < 10 \<Longrightarrow> (of_char (digit_char d) :: nat) = 48 + d"
  by (simp add: digit_char_def)

lemma digits_10_isdigit: "c \<in> set (digits 10 n) \<Longrightarrow> isdigit c"
proof (induction "10 :: nat" n rule: digits.induct)
  case (1 n)
  show ?case
  proof (cases "n < 10")
    case True
    with 1(2) show ?thesis
      by (subst (asm) digits.simps) (simp add: isdigit_digit_char)
  next
    case False
    with 1(2) have "c \<in> set (digits 10 (n div 10)) \<or> c = digit_char (n mod 10)"
      by (subst (asm) digits.simps) auto
    with 1(1) False show ?thesis
      by (auto simp: isdigit_digit_char)
  qed
qed

lemma decimal_value_snoc:
  "isdigit c \<Longrightarrow> decimal_value acc (xs @ [c]) = 10 * decimal_value acc xs + (of_char c - 48)"
  by (induction xs arbitrary: acc) auto

lemma decimal_value_digits: "decimal_value 0 (digits 10 n) = n"
proof (induction "10 :: nat" n rule: digits.induct)
  case (1 n)
  show ?case
  proof (cases "n < 10")
    case True
    then show ?thesis
      by (subst digits.simps) (simp add: isdigit_digit_char of_char_digit_char)
  next
    case False
    with 1 have "decimal_value 0 (digits 10 (n div 10)) = n div 10"
      by simp
    with False show ?thesis
      by (subst digits.simps)
         (simp add: decimal_value_snoc isdigit_digit_char of_char_digit_char)
  qed
qed

lemma digit_groups_all_digits:
  "\<forall>c \<in> set s. isdigit c \<Longrightarrow> digit_groups after s = (after \<or> s \<noteq> [])"
  by (induction s arbitrary: after) auto

lemma dropWhile_keeps_hd: "s \<noteq> [] \<Longrightarrow> \<not> P (hd s) \<Longrightarrow> dropWhile P s = s"
  by (cases s) auto

lemma dropWhile_keeps_last: "s \<noteq> [] \<Longrightarrow> \<not> P (last s) \<Longrightarrow> dropWhile P (rev s) = rev s"
  by (cases s rule: rev_cases) auto

lemma digit_groups_hd:
  "s \<noteq> [] \<Longrightarrow> isdigit (hd s) \<Longrightarrow>
   (case s of [] \<Rightarrow> False | c # _ \<Rightarrow> c = CHR ''-'') = False
   \<and> (case s of [] \<Rightarrow> [] | c # cs \<Rightarrow> if c = CHR ''-'' \<or> c = CHR ''+'' then cs else s) = s"
  by (cases s) (auto simp: isdigit_def)

lemma py_int_all_digits:
  assumes ne: "s \<noteq> []" and dig: "\<forall>c \<in> set s. isdigit c"
  shows "py_int s = Inr (int (decimal_value 0 s))"
proof -
  have nosp: "isdigit c \<Longrightarrow> \<not> isspace c" for c
    by (auto simp: isdigit_def isspace_def)
  from ne dig have hl: "isdigit (hd s)" "isdigit (last s)"
    by simp_all
  then have "dropWhile isspace s = s" "dropWhile isspace (rev s) = rev s"
    using ne nosp by (simp_all add: dropWhile_keeps_hd dropWhile_keeps_last)
  then have t: "rev (dropWhile isspace (rev (dropWhile isspace s))) = s"
    by simp
  from dig ne have g: "digit_groups False s"
    by (simp add: digit_groups_all_digits)
  show ?thesis
    unfolding py_int_def t Let_def
    using digit_groups_hd [OF ne hl(1)] g by simp
qed

lemma py_int_digits: "py_int (digits 10 n) = Inr (int n)"
  using py_int_all_digits [of "digits 10 n"]
  by (simp add: digits_not_empty digits_10_isdigit decimal_value_digits)

lemma py_strip_keeps:
  assumes "s \<noteq> []" and "hd s \<notin> set chars" and "last s \<notin> set chars"
      and "set p \<subseteq> set chars"
  shows "py_strip chars (p @ s) = s"
proof -
  from assms(1,2,4) have "dropWhile (\<lambda>c. c \<in> set chars) (p @ s) = s"
    by (cases s) (auto simp: dropWhile_append3 dropWhile_append)
  moreover from assms(1,3) have "dropWhile (\<lambda>c. c \<in> set chars) (rev s) = rev s"
    by (cases s rule: rev_cases) auto
  ultimately show ?thesis
    by (simp add: py_strip_def)
qed

lemma bus_number_read_back:
  assumes "hd (digits 10 n) \<noteq> CHR ''2''" and "last (digits 10 n) \<noteq> CHR ''2''"
  shows "py_int (py_strip ''i2c-'' (''i2c-'' @ digits 10 n)) = Inr (int n)"
proof -
  let ?ds = "digits 10 n"
  have ne: "?ds \<noteq> []"
    by (rule digits_not_empty)
  have out: "isdigit c \<Longrightarrow> c \<noteq> CHR ''2'' \<Longrightarrow> c \<notin> set ''i2c-''" for c
    by (auto simp: isdigit_def)
  from ne have "isdigit (hd ?ds)" "isdigit (last ?ds)"
    using digits_10_isdigit hd_in_set last_in_set by blast+
  with assms out have "hd ?ds \<notin> set ''i2c-''" "last ?ds \<notin> set ''i2c-''"
    by blast+
  with ne have "py_strip ''i2c-'' (''i2c-'' @ ?ds) = ?ds"
    by (intro py_strip_keeps) auto
  then show ?thesis
    by (simp add: py_int_digits)
qed

subsection \<open>The claims\<close>

lemma fails_at_values:
  "bad \<noteq> ''modprobe i2c-dev'' \<Longrightarrow> fails_at bad ''modprobe i2c-dev'' = (0, [], [])"
  "fails_at bad bad = (1, [], ''FATAL'')"
  by (simp_all add: fails_at_def all_ok_def)


lemma open_bus_fails_2:
  "shell E ''modprobe i2c-dev'' (host w) = ((0, o1, e1), h1) \<Longrightarrow>
   shell E ''modprobe -r i2c-stub'' h1 = ((rc, out, err), h2) \<Longrightarrow> rc \<noteq> 0 \<Longrightarrow>
   open_bus E b ds self w =
     (Some (FakeI2cException (cmd_failure ''modprobe -r i2c-stub'' rc err)),
      self\<lparr>bus := Some b, devices_list := Some ds\<rparr>,
      \<lparr>host = h2, events = events w @ [Cmd ''modprobe i2c-dev'', Cmd ''modprobe -r i2c-stub'']\<rparr>)"
  by (simp add: open_bus_error add_fake_devices_fails_2)



lemma open_bus_issues_load:
  assumes "shell E ''modprobe i2c-dev'' (host w) = ((0, o1, e1), h1)"
      and "shell E ''modprobe -r i2c-stub'' h1 = ((0, o2, e2), h2)"
  shows "\<exists>evs. events (snd (snd (open_bus E b ds self w))) =
           events w @ [Cmd ''modprobe i2c-dev'', Cmd ''modprobe -r i2c-stub'',
             Cmd (stub_load_cmd ds)] @ evs"
proof -
  let ?S = "self\<lparr>bus := Some b, devices_list := Some ds\<rparr>"
  obtain evs1 where 1: "events (snd (snd (add_fake_devices E ds ?S w))) =
           events w @ [Cmd ''modprobe i2c-dev'', Cmd ''modprobe -r i2c-stub'',
             Cmd (stub_load_cmd ds)] @ evs1"
    using add_fake_devices_issues_load [OF assms] by blast
  obtain evs2 where 2: "events (snd (snd (open_bus E b ds self w))) =
      events (snd (snd (add_fake_devices E ds ?S w))) @ evs2"
    using open_bus_events by blast
  show ?thesis unfolding 2 1 by simp
qed

text \<open>
  C2. When the first three commands and \<open>i2cdetect -l\<close> exit with status 0 and no line of
  the listing contains \<open>SMBus stub driver\<close>, \<open>open\<close> raises \<open>FakeI2cException\<close> with the
  message \<open>SMBus stub driver not found\<close>, which ends with the words \<open>stub driver not
  found\<close>. The host is as the four commands left it, the only calls made are the four
  commands (no unlink, no symlink, no open of the base class), and no link path is stored.
\<close>

theorem C2_no_stub_line_raises_not_found:
  assumes "shell E ''modprobe i2c-dev'' (host w) = ((0, o1, e1), h1)"
      and "shell E ''modprobe -r i2c-stub'' h1 = ((0, o2, e2), h2)"
      and "shell E (stub_load_cmd ds) h2 = ((0, o3, e3), h3)"
      and "shell E ''i2cdetect -l'' h3 = ((0, out, e4), h4)"
      and "\<forall>line \<in> set (split_on NL out). \<not> py_in marker line"
  shows "open_bus E b ds self w =
     (Some (FakeI2cException ''SMBus stub driver not found''),
      self\<lparr>bus := Some b, devices_list := Some ds\<rparr>,
      \<lparr>host = h4, events = events w @ [Cmd ''modprobe i2c-dev'', Cmd ''modprobe -r i2c-stub'',
         Cmd (stub_load_cmd ds), Cmd ''i2cdetect -l'']\<rparr>)
     \<and> suffix ''stub driver not found'' ''SMBus stub driver not found''"
proof -
  have "suffix ''stub driver not found'' ''SMBus stub driver not found''"
    unfolding suffix_def by (rule exI [of _ "''SMBus ''"]) simp
  then show ?thesis
    using assms
    by (simp add: open_bus_error add_fake_devices_loaded symlink_i2c_stub_not_found)
qed

theorem C2_no_stub_line_witness:
  "filter (py_in marker) (split_on NL (bus_line ''i2c-0'' ''SMBus I801 adapter at f040'')) = []
   \<and> fst (open_bus (table_env (all_ok (bus_line ''i2c-0'' ''SMBus I801 adapter at f040'')))
          3 [0x1C] init (world_of []))
     = Some (FakeI2cException ''SMBus stub driver not found'')
   \<and> entries (host (snd (snd (open_bus
          (table_env (all_ok (bus_line ''i2c-0'' ''SMBus I801 adapter at f040'')))
          3 [0x1C] init (world_of []))))) ''/dev/i2c-3'' = None
   \<and> bus_path (fst (snd (open_bus
          (table_env (all_ok (bus_line ''i2c-0'' ''SMBus I801 adapter at f040'')))
          3 [0x1C] init (world_of [])))) = []"
proof -
  let ?out = "bus_line ''i2c-0'' ''SMBus I801 adapter at f040''"
  let ?E = "table_env (all_ok ?out)"
  let ?w = "world_of []"
  have h: "\<forall>line \<in> set (split_on NL ?out). \<not> py_in marker line"
    by (simp add: bus_line_def NL_def TAB_def marker_def)
  have c1: "shell ?E ''modprobe i2c-dev'' (host ?w) = ((0, [], []), host ?w)"
    by (simp add: table_env_shell all_ok_modprobe)
  have c2: "shell ?E ''modprobe -r i2c-stub'' (host ?w) = ((0, [], []), host ?w)"
    by (simp add: table_env_shell all_ok_modprobe)
  have c3: "shell ?E (stub_load_cmd [0x1C]) (host ?w) = ((0, [], []), host ?w)"
    by (simp add: table_env_shell all_ok_modprobe)
  have c4: "shell ?E ''i2cdetect -l'' (host ?w) = ((0, ?out, []), host ?w)"
    by (simp add: table_env_shell all_ok_modprobe)
  have "filter (py_in marker) (split_on NL ?out) = []"
    using h by (simp add: filter_empty_conv)
  then show ?thesis
    using C2_no_stub_line_raises_not_found [OF c1 c2 c3 c4 h, of 3 init]
    by (simp add: world_of_def init_def bus_path_def)
qed

text \<open>
  C4, as the code has it. The unload command is the second command of \<open>open\<close>, issued
  before the load command. When it exits with a status other than 0, \<open>open\<close> raises
  \<open>FakeI2cException\<close> with the message of the failed command and issues nothing more; when
  it exits with status 0, the load command with the requested addresses is the next call.
\<close>

theorem C4_unload_precedes_load_and_must_succeed:
  assumes "shell E ''modprobe i2c-dev'' (host w) = ((0, o1, e1), h1)"
      and "shell E ''modprobe -r i2c-stub'' h1 = ((rc, o2, e2), h2)"
  shows "(rc \<noteq> 0 \<longrightarrow>
            open_bus E b ds self w =
              (Some (FakeI2cException (cmd_failure ''modprobe -r i2c-stub'' rc e2)),
               self\<lparr>bus := Some b, devices_list := Some ds\<rparr>,
               \<lparr>host = h2,
                events = events w @ [Cmd ''modprobe i2c-dev'', Cmd ''modprobe -r i2c-stub'']\<rparr>))
       \<and> (rc = 0 \<longrightarrow>
            (\<exists>evs. events (snd (snd (open_bus E b ds self w))) =
               events w @ [Cmd ''modprobe i2c-dev'', Cmd ''modprobe -r i2c-stub'',
                 Cmd (stub_load_cmd ds)] @ evs))"
proof (intro conjI impI)
  assume "rc \<noteq> 0"
  with assms show "open_bus E b ds self w =
              (Some (FakeI2cException (cmd_failure ''modprobe -r i2c-stub'' rc e2)),
               self\<lparr>bus := Some b, devices_list := Some ds\<rparr>,
               \<lparr>host = h2,
                events = events w @ [Cmd ''modprobe i2c-dev'', Cmd ''modprobe -r i2c-stub'']\<rparr>)"
    by (rule open_bus_fails_2)
next
  assume "rc = 0"
  with assms show "\<exists>evs. events (snd (snd (open_bus E b ds self w))) =
               events w @ [Cmd ''modprobe i2c-dev'', Cmd ''modprobe -r i2c-stub'',
                 Cmd (stub_load_cmd ds)] @ evs"
    using open_bus_issues_load by blast
qed

theorem C4_unload_witness:
  "fst (open_bus (table_env (fails_at ''modprobe -r i2c-stub'')) 3 [0x1C] init (world_of []))
     = Some (FakeI2cException (cmd_failure ''modprobe -r i2c-stub'' 1 ''FATAL''))
   \<and> (\<exists>evs. events (snd (snd (open_bus (table_env (all_ok (listing ''i2c-7''))) 3 [0x1C] init
          (world_of [])))) =
        [Cmd ''modprobe i2c-dev'', Cmd ''modprobe -r i2c-stub'',
         Cmd ''modprobe i2c-stub chip_addr=0x1c''] @ evs)"
proof -
  let ?w = "world_of []"
  let ?F = "table_env (fails_at ''modprobe -r i2c-stub'')"
  let ?E = "table_env (all_ok (listing ''i2c-7''))"
  have f1: "shell ?F ''modprobe i2c-dev'' (host ?w) = ((0, [], []), host ?w)"
    by (simp add: table_env_shell fails_at_values)
  have f2: "shell ?F ''modprobe -r i2c-stub'' (host ?w) = ((1, [], ''FATAL''), host ?w)"
    by (simp add: table_env_shell fails_at_values)
  have c1: "shell ?E ''modprobe i2c-dev'' (host ?w) = ((0, [], []), host ?w)"
    by (simp add: table_env_shell all_ok_modprobe)
  have c2: "shell ?E ''modprobe -r i2c-stub'' (host ?w) = ((0, [], []), host ?w)"
    by (simp add: table_env_shell all_ok_modprobe)
  have l: "stub_load_cmd [0x1C] = ''modprobe i2c-stub chip_addr=0x1c''"
    by code_simp
  show ?thesis
    using C4_unload_precedes_load_and_must_succeed [OF f1 f2, of 3 "[0x1C]" init]
          C4_unload_precedes_load_and_must_succeed [OF c1 c2, of 3 "[0x1C]" init]
    by (simp add: world_of_def l)
qed

text \<open>
  C4, as the claim states it, fails: with an unload command that exits with status 1,
  \<open>open\<close> raises and the load command is never issued.
\<close>

theorem C4_unload_failure_is_not_ignored:
  "fst (open_bus (table_env (fails_at ''modprobe -r i2c-stub'')) 3 [0x1C] init (world_of []))
     \<noteq> None
   \<and> events (snd (snd (open_bus (table_env (fails_at ''modprobe -r i2c-stub'')) 3 [0x1C] init
        (world_of []))))
     = [Cmd ''modprobe i2c-dev'', Cmd ''modprobe -r i2c-stub'']"
proof -
  let ?w = "world_of []"
  let ?F = "table_env (fails_at ''modprobe -r i2c-stub'')"
  have f1: "shell ?F ''modprobe i2c-dev'' (host ?w) = ((0, [], []), host ?w)"
    by (simp add: table_env_shell fails_at_values)
  have f2: "shell ?F ''modprobe -r i2c-stub'' (host ?w) = ((1, [], ''FATAL''), host ?w)"
    by (simp add: table_env_shell fails_at_values)
  show ?thesis
    using open_bus_fails_2 [OF f1 f2, of 3 "[0x1C]" init]
    by (simp add: world_of_def)
qed


text \<open>
  C1, at two listings of the form the claim describes. \<open>strip('i2c-')\<close> removes every
  leading and trailing character among \<open>i\<close>, \<open>2\<close>, \<open>c\<close> and \<open>-\<close>, so digits 2 at either
  end of the number are lost: for the stub on \<open>i2c-2\<close> nothing is left, \<open>int\<close> raises
  \<open>ValueError\<close> and no bus id is stored; for the stub on \<open>i2c-12\<close> the call succeeds, the
  stored bus id is 1 and the base class is opened on bus 1, while the stored path is that of
  bus 12.
\<close>

theorem C1_strip_removes_digits_of_bus_number:
  "open_bus (table_env (all_ok (listing ''i2c-2''))) 3 [0x1C] init (world_of [])
     = (Some ValueError,
        init\<lparr>bus := Some 3, devices_list := Some [0x1C]\<rparr>,
        \<lparr>host = host (world_of []),
         events = [Cmd ''modprobe i2c-dev'', Cmd ''modprobe -r i2c-stub'',
                   Cmd (stub_load_cmd [0x1C]), Cmd ''i2cdetect -l'']\<rparr>)
   \<and> get_real_bus (init\<lparr>bus := Some 3, devices_list := Some [0x1C]\<rparr>) = None
   \<and> fst (open_bus (table_env (all_ok (listing ''i2c-12''))) 3 [0x1C] init (world_of []))
     = None
   \<and> get_real_bus (fst (snd (open_bus (table_env (all_ok (listing ''i2c-12''))) 3 [0x1C] init
        (world_of [])))) = Some 1
   \<and> get_real_bus_path (fst (snd (open_bus (table_env (all_ok (listing ''i2c-12''))) 3 [0x1C]
        init (world_of [])))) = ''/dev/i2c-12''
   \<and> events (snd (snd (open_bus (table_env (all_ok (listing ''i2c-12''))) 3 [0x1C] init
        (world_of []))))
     = [Cmd ''modprobe i2c-dev'', Cmd ''modprobe -r i2c-stub'', Cmd (stub_load_cmd [0x1C]),
        Cmd ''i2cdetect -l'', Symlink ''/dev/i2c-12'' ''/dev/i2c-3'', SMBusOpen (Some 1)]"
proof -
  let ?w = "world_of []"
  let ?S = "init\<lparr>bus := Some 3, devices_list := Some [0x1C]\<rparr>"
  have c: "shell (table_env (all_ok out)) ''modprobe i2c-dev'' (host ?w) = ((0, [], []), host ?w)"
          "shell (table_env (all_ok out)) ''modprobe -r i2c-stub'' (host ?w) = ((0, [], []), host ?w)"
          "shell (table_env (all_ok out)) (stub_load_cmd [0x1C]) (host ?w) = ((0, [], []), host ?w)"
          "shell (table_env (all_ok out)) ''i2cdetect -l'' (host ?w) = ((0, out, []), host ?w)"
    for out
    by (simp_all add: table_env_shell all_ok_modprobe)
  have two: "open_bus (table_env (all_ok (listing ''i2c-2''))) 3 [0x1C] init ?w
     = (Some ValueError, ?S,
        \<lparr>host = host ?w,
         events = [Cmd ''modprobe i2c-dev'', Cmd ''modprobe -r i2c-stub'',
                   Cmd (stub_load_cmd [0x1C]), Cmd ''i2cdetect -l'']\<rparr>)"
    using open_bus_scan_error [OF c scan_listing_2, of 3 init]
    by (simp add: world_of_def)
  have py: "py_str 3 = ''3''"
    by code_simp
  have twelve: "open_bus (table_env (all_ok (listing ''i2c-12''))) 3 [0x1C] init ?w
     = (None, ?S\<lparr>real_bus := Some 1, bus_link := Some ''/dev/i2c-3'',
                  real_bus_path := Some ''/dev/i2c-12''\<rparr>,
        \<lparr>host = (host ?w)\<lparr>entries := (entries (host ?w))(''/dev/i2c-3'' \<mapsto> Link ''/dev/i2c-12'')\<rparr>,
         events = [Cmd ''modprobe i2c-dev'', Cmd ''modprobe -r i2c-stub'',
                   Cmd (stub_load_cmd [0x1C]), Cmd ''i2cdetect -l'',
                   Symlink ''/dev/i2c-12'' ''/dev/i2c-3'', SMBusOpen (Some 1)]\<rparr>)"
    unfolding open_bus_reaches_alias [OF c scan_listing_12, of 3 init] py
    by (simp add: link_alias_absent world_of_def table_env_smbus)
  show ?thesis
    unfolding two twelve
    by (simp add: get_real_bus_def get_real_bus_path_def init_def)
qed





text \<open>
  C6. When the four commands have exited with status 0, the scan of the listing has found
  the stub, and the alias path \<open>/dev/i2c-<bus>\<close> is a symbolic link whose target does not
  exist, \<open>open\<close> calls \<open>unlink\<close> on the alias path and after that \<open>symlink\<close> from the alias
  path to the path of the real bus; the alias path then is a link to the real bus path.
\<close>

theorem C6_dangling_alias_is_replaced:
  assumes "shell E ''modprobe i2c-dev'' (host w) = ((0, o1, e1), h1)"
      and "shell E ''modprobe -r i2c-stub'' h1 = ((0, o2, e2), h2)"
      and "shell E (stub_load_cmd ds) h2 = ((0, o3, e3), h3)"
      and "shell E ''i2cdetect -l'' h3 = ((0, out, e4), h4)"
      and "scan_lines (split_on NL out) (self\<lparr>bus := Some b, devices_list := Some ds\<rparr>)
                 = (None, Some tok, s)"
      and "entries h4 (''/dev/i2c-'' @ py_str b) = Some (Link t)"
      and "\<not> path_exists h4 t"
  shows "open_bus E b ds self w =
     (smbus_open E (real_bus s)
        (h4\<lparr>entries := (entries h4)(''/dev/i2c-'' @ py_str b \<mapsto> Link (''/dev/'' @ tok))\<rparr>),
      s\<lparr>bus_link := Some (''/dev/i2c-'' @ py_str b), real_bus_path := Some (''/dev/'' @ tok)\<rparr>,
      \<lparr>host = h4\<lparr>entries := (entries h4)(''/dev/i2c-'' @ py_str b \<mapsto> Link (''/dev/'' @ tok))\<rparr>,
       events = events w @ [Cmd ''modprobe i2c-dev'', Cmd ''modprobe -r i2c-stub'',
          Cmd (stub_load_cmd ds), Cmd ''i2cdetect -l'',
          Unlink (''/dev/i2c-'' @ py_str b),
          Symlink (''/dev/'' @ tok) (''/dev/i2c-'' @ py_str b),
          SMBusOpen (real_bus s)]\<rparr>)"
  using assms by (rule open_bus_alias_dangling)

theorem C6_dangling_alias_witness:
  "entries (host (world_of [(''/dev/i2c-7'', Node), (''/dev/i2c-3'', Link ''/dev/i2c-9'')]))
     ''/dev/i2c-3'' = Some (Link ''/dev/i2c-9'')
   \<and> \<not> path_exists (host (world_of [(''/dev/i2c-7'', Node), (''/dev/i2c-3'', Link ''/dev/i2c-9'')]))
        ''/dev/i2c-9''
   \<and> fst (open_bus (table_env (all_ok (listing ''i2c-7''))) 3 [0x1C] init
        (world_of [(''/dev/i2c-7'', Node), (''/dev/i2c-3'', Link ''/dev/i2c-9'')])) = None
   \<and> events (snd (snd (open_bus (table_env (all_ok (listing ''i2c-7''))) 3 [0x1C] init
        (world_of [(''/dev/i2c-7'', Node), (''/dev/i2c-3'', Link ''/dev/i2c-9'')]))))
     = [Cmd ''modprobe i2c-dev'', Cmd ''modprobe -r i2c-stub'', Cmd (stub_load_cmd [0x1C]),
        Cmd ''i2cdetect -l'', Unlink ''/dev/i2c-3'', Symlink ''/dev/i2c-7'' ''/dev/i2c-3'',
        SMBusOpen (Some 7)]
   \<and> entries (host (snd (snd (open_bus (table_env (all_ok (listing ''i2c-7''))) 3 [0x1C] init
        (world_of [(''/dev/i2c-7'', Node), (''/dev/i2c-3'', Link ''/dev/i2c-9'')])))))
        ''/dev/i2c-3'' = Some (Link ''/dev/i2c-7'')"
proof -
  let ?w = "world_of [(''/dev/i2c-7'', Node), (''/dev/i2c-3'', Link ''/dev/i2c-9'')]"
  have l: "entries (host ?w) (''/dev/i2c-'' @ py_str 3) = Some (Link ''/dev/i2c-9'')"
    by (simp add: world_of_def py_str_3)
  have "entries (host ?w) ''/dev/i2c-9'' = None"
    by (simp add: world_of_def)
  then have d: "\<not> path_exists (host ?w) ''/dev/i2c-9''"
    by (rule path_exists_absent)
  show ?thesis
    using l d C6_dangling_alias_is_replaced [OF fixture_commands scan_listing_7 l d, of "[0x1C]"]
    by (simp add: py_str_3 table_env_smbus world_of_def)
qed








text \<open>
  C10. For an empty list of addresses the load command is \<open>modprobe i2c-stub chip_addr=\<close>
  with nothing after the equals sign. \<open>open\<close> with the empty list issues it as its third
  command once the first two have exited with status 0, and when it exits with status 0 as
  well, \<open>__add_fake_devices\<close> goes on with \<open>__symlink_i2c_stub\<close>: the search for the stub
  and the making of the link, as for any other list.
\<close>

theorem C10_empty_address_list_is_accepted:
  assumes "shell E ''modprobe i2c-dev'' (host w) = ((0, o1, e1), h1)"
      and "shell E ''modprobe -r i2c-stub'' h1 = ((0, o2, e2), h2)"
  shows "chip_addr_param [] = ''chip_addr=''
     \<and> stub_load_cmd [] = ''modprobe i2c-stub chip_addr=''
     \<and> (\<exists>evs. events (snd (snd (open_bus E b [] self w))) =
           events w @ [Cmd ''modprobe i2c-dev'', Cmd ''modprobe -r i2c-stub'',
             Cmd ''modprobe i2c-stub chip_addr=''] @ evs)
     \<and> (\<forall>o3 e3 h3. shell E ''modprobe i2c-stub chip_addr='' h2 = ((0, o3, e3), h3) \<longrightarrow>
           add_fake_devices E [] (self\<lparr>bus := Some b, devices_list := Some []\<rparr>) w =
             symlink_i2c_stub E (self\<lparr>bus := Some b, devices_list := Some []\<rparr>)
               \<lparr>host = h3,
                events = events w @ [Cmd ''modprobe i2c-dev'', Cmd ''modprobe -r i2c-stub'',
                  Cmd ''modprobe i2c-stub chip_addr='']\<rparr>)"
proof -
  have l: "stub_load_cmd [] = ''modprobe i2c-stub chip_addr=''"
    by (simp add: stub_load_cmd_def chip_addr_param_def)
  have "\<exists>evs. events (snd (snd (open_bus E b [] self w))) =
           events w @ [Cmd ''modprobe i2c-dev'', Cmd ''modprobe -r i2c-stub'',
             Cmd (stub_load_cmd [])] @ evs"
    using assms by (rule open_bus_issues_load)
  moreover have "add_fake_devices E [] (self\<lparr>bus := Some b, devices_list := Some []\<rparr>) w =
             symlink_i2c_stub E (self\<lparr>bus := Some b, devices_list := Some []\<rparr>)
               \<lparr>host = h3,
                events = events w @ [Cmd ''modprobe i2c-dev'', Cmd ''modprobe -r i2c-stub'',
                  Cmd (stub_load_cmd [])]\<rparr>"
    if "shell E (stub_load_cmd []) h2 = ((0, o3, e3), h3)" for o3 e3 h3
    using assms that by (rule add_fake_devices_loaded)
  ultimately show ?thesis
    unfolding l by (simp add: chip_addr_param_def)
qed

theorem C10_empty_address_list_witness:
  "(\<exists>evs. events (snd (snd (open_bus (table_env (all_ok (listing ''i2c-7''))) 3 [] init
        (world_of [(''/dev/i2c-7'', Node)])))) =
      [Cmd ''modprobe i2c-dev'', Cmd ''modprobe -r i2c-stub'',
       Cmd ''modprobe i2c-stub chip_addr=''] @ evs)
   \<and> add_fake_devices (table_env (all_ok (listing ''i2c-7''))) []
        (init\<lparr>bus := Some 3, devices_list := Some []\<rparr>) (world_of [(''/dev/i2c-7'', Node)])
     = (None,
        init\<lparr>bus := Some 3, devices_list := Some [], real_bus := Some 7,
             bus_link := Some ''/dev/i2c-3'', real_bus_path := Some ''/dev/i2c-7''\<rparr>,
        \<lparr>host = (host (world_of [(''/dev/i2c-7'', Node)]))
                  \<lparr>entries := (entries (host (world_of [(''/dev/i2c-7'', Node)])))
                       (''/dev/i2c-3'' \<mapsto> Link ''/dev/i2c-7'')\<rparr>,
         events = [Cmd ''modprobe i2c-dev'', Cmd ''modprobe -r i2c-stub'',
                   Cmd ''modprobe i2c-stub chip_addr='', Cmd ''i2cdetect -l'',
                   Symlink ''/dev/i2c-7'' ''/dev/i2c-3'']\<rparr>)"
proof -
  let ?w = "world_of [(''/dev/i2c-7'', Node)]"
  let ?E = "table_env (all_ok (listing ''i2c-7''))"
  let ?S = "init\<lparr>bus := Some 3, devices_list := Some []\<rparr>"
  let ?w3 = "\<lparr>host = host ?w,
              events = events ?w @ [Cmd ''modprobe i2c-dev'', Cmd ''modprobe -r i2c-stub'',
                Cmd ''modprobe i2c-stub chip_addr='']\<rparr>"
  have c3: "shell ?E ''modprobe i2c-stub chip_addr='' (host ?w) = ((0, [], []), host ?w)"
    by (simp add: table_env_shell all_ok_def)
  have c4: "shell ?E ''i2cdetect -l'' (host ?w3) = ((0, listing ''i2c-7'', []), host ?w)"
    by (simp add: table_env_shell all_ok_def)
  have a: "entries (host ?w) ''/dev/i2c-3'' = None"
    by (simp add: world_of_def)
  have s: "symlink_i2c_stub ?E ?S ?w3
     = (None, ?S\<lparr>real_bus := Some 7, bus_link := Some ''/dev/i2c-3'',
                  real_bus_path := Some ''/dev/i2c-7''\<rparr>,
        \<lparr>host = (host ?w)\<lparr>entries := (entries (host ?w))(''/dev/i2c-3'' \<mapsto> Link ''/dev/i2c-7'')\<rparr>,
         events = events ?w3 @ [Cmd ''i2cdetect -l'', Symlink ''/dev/i2c-7'' ''/dev/i2c-3'']\<rparr>)"
    unfolding symlink_i2c_stub_found [OF c4 scan_listing_7]
    using a by (simp add: py_str_opt_def py_str_3 link_alias_absent)
  have ev: "events ?w = []"
    by (simp add: world_of_def)
  have c1: "shell ?E ''modprobe i2c-dev'' (host ?w) = ((0, [], []), host ?w)"
    by (rule fixture_commands)
  have c2: "shell ?E ''modprobe -r i2c-stub'' (host ?w) = ((0, [], []), host ?w)"
    by (rule fixture_commands)
  from C10_empty_address_list_is_accepted [OF c1 c2, where b = 3 and self = init]
  show ?thesis
    using c3 s by (simp add: ev)
qed





text \<open>
  C5. The load command is \<open>modprobe i2c-stub\<close>, a space, and the parameter
  \<open>chip_addr=\<close> followed by \<open>hex\<close> of each address, in the order of the list, joined by
  commas; \<open>open\<close> issues it as its third command. Cutting the joined text at its commas
  gives back exactly the renderings in their order, and the parameter holds no space. For an
  address that is not negative the rendering is \<open>0x\<close> followed by a text of the characters
  \<open>0\<close> to \<open>9\<close> and \<open>a\<close> to \<open>f\<close> whose value in base 16 is the address. For the
  addresses 0x20 and 0x50 the parameter is \<open>chip_addr=0x20,0x50\<close>.
\<close>

theorem C5_chip_addr_parameter_format:
  "chip_addr_param ds = ''chip_addr='' @ join '','' (map hex ds)
   \<and> stub_load_cmd ds = ''modprobe i2c-stub '' @ chip_addr_param ds
   \<and> chip_addr_param [0x20, 0x50] = ''chip_addr=0x20,0x50''
   \<and> (ds \<noteq> [] \<longrightarrow> split_on (CHR '','') (join '','' (map hex ds)) = map hex ds)
   \<and> CHR '' '' \<notin> set (chip_addr_param ds)
   \<and> (\<forall>a \<in> set ds. 0 \<le> a \<longrightarrow>
         (\<exists>t. hex a = ''0x'' @ t \<and> lower_hex_value t = Some (nat a)))
   \<and> (shell E ''modprobe i2c-dev'' (host w) = ((0, o1, e1), h1)
        \<and> shell E ''modprobe -r i2c-stub'' h1 = ((0, o2, e2), h2) \<longrightarrow>
        (\<exists>evs. events (snd (snd (open_bus E b ds self w))) =
           events w @ [Cmd ''modprobe i2c-dev'', Cmd ''modprobe -r i2c-stub'',
             Cmd (''modprobe i2c-stub '' @ chip_addr_param ds)] @ evs))"
proof (intro conjI impI ballI)
  show "chip_addr_param ds = ''chip_addr='' @ join '','' (map hex ds)"
    by (simp add: chip_addr_param_def)
  show "stub_load_cmd ds = ''modprobe i2c-stub '' @ chip_addr_param ds"
    by (simp add: stub_load_cmd_def)
  show "chip_addr_param [0x20, 0x50] = ''chip_addr=0x20,0x50''"
    by code_simp
  show "split_on (CHR '','') (join '','' (map hex ds)) = map hex ds" if "ds \<noteq> []"
    using that by (intro split_on_join) (auto simp: hex_no_comma)
  show "CHR '' '' \<notin> set (chip_addr_param ds)"
    by (rule chip_addr_param_no_space)
  show "\<exists>t. hex a = ''0x'' @ t \<and> lower_hex_value t = Some (nat a)" if "0 \<le> a" for a
    using that by (simp add: hex_def lower_hex_value_digits)
  show "\<exists>evs. events (snd (snd (open_bus E b ds self w))) =
           events w @ [Cmd ''modprobe i2c-dev'', Cmd ''modprobe -r i2c-stub'',
             Cmd (''modprobe i2c-stub '' @ chip_addr_param ds)] @ evs"
    if "shell E ''modprobe i2c-dev'' (host w) = ((0, o1, e1), h1)
        \<and> shell E ''modprobe -r i2c-stub'' h1 = ((0, o2, e2), h2)"
    using that open_bus_issues_load [of E w o1 e1 h1 o2 e2 h2 b ds self]
    by (simp add: stub_load_cmd_def)
qed

theorem C5_chip_addr_parameter_witness:
  "split_on (CHR '','') ''0x20,0x50'' = [''0x20'', ''0x50'']
   \<and> lower_hex_value ''20'' = Some 32
   \<and> lower_hex_value ''50'' = Some 80
   \<and> (\<exists>evs. events (snd (snd (open_bus (table_env (all_ok (listing ''i2c-7''))) 3
          [0x20, 0x50] init (world_of [])))) =
        [Cmd ''modprobe i2c-dev'', Cmd ''modprobe -r i2c-stub'',
         Cmd ''modprobe i2c-stub chip_addr=0x20,0x50''] @ evs)"
proof -
  let ?E = "table_env (all_ok (listing ''i2c-7''))"
  let ?w = "world_of []"
  have h: "hex 0x20 = ''0x20''" "hex 0x50 = ''0x50''"
    by code_simp+
  have c: "shell ?E ''modprobe i2c-dev'' (host ?w) = ((0, [], []), host ?w)
        \<and> shell ?E ''modprobe -r i2c-stub'' (host ?w) = ((0, [], []), host ?w)"
    by (simp add: fixture_commands)
  have ev: "events ?w = []"
    by (simp add: world_of_def)
  note t = C5_chip_addr_parameter_format
         [of "[0x20, 0x50]" ?E ?w "[]" "[]" "host ?w" "[]" "[]" "host ?w" 3 init]
  from t have p: "chip_addr_param [0x20, 0x50] = ''chip_addr=0x20,0x50''"
    by blast
  from t have 1: "split_on (CHR '','') (join '','' (map hex [0x20, 0x50])) = map hex [0x20, 0x50]"
    by simp
  from t have 2: "\<exists>t. hex 0x20 = ''0x'' @ t \<and> lower_hex_value t = Some (nat 0x20)"
    and 3: "\<exists>t. hex 0x50 = ''0x'' @ t \<and> lower_hex_value t = Some (nat 0x50)"
    by simp_all
  from t c have 4: "\<exists>evs. events (snd (snd (open_bus ?E 3 [0x20, 0x50] init ?w))) =
           events ?w @ [Cmd ''modprobe i2c-dev'', Cmd ''modprobe -r i2c-stub'',
             Cmd (''modprobe i2c-stub '' @ chip_addr_param [0x20, 0x50])] @ evs"
    by blast
  from 1 have "split_on (CHR '','') ''0x20,0x50'' = [''0x20'', ''0x50'']"
    by (simp add: h)
  moreover from 2 have "lower_hex_value ''20'' = Some 32"
    by (simp add: h)
  moreover from 3 have "lower_hex_value ''50'' = Some 80"
    by (simp add: h)
  moreover from 4 have "\<exists>evs. events (snd (snd (open_bus ?E 3 [0x20, 0x50] init ?w))) =
        [Cmd ''modprobe i2c-dev'', Cmd ''modprobe -r i2c-stub'',
         Cmd ''modprobe i2c-stub chip_addr=0x20,0x50''] @ evs"
    unfolding p by (simp add: ev)
  ultimately show ?thesis
    by blast
qed

end
